theory Spec2Isabelle
  imports Complex_Main "HOL-Library.List_Lexorder"
begin

section \<open>Values of the Python program\<close>

text \<open>
  A Python \<open>str\<close> is a sequence of Unicode code points, so it is modelled as a list of
  natural numbers (a HOL \<open>char\<close> is one byte only). \<open>ascii\<close> turns a HOL literal into
  such a string. The keys of the dictionaries are the ASCII literals of the source and stay
  HOL strings. A Python \<open>float\<close> is modelled as a real number.
\<close>

type_synonym pystr = "nat list"

definition ascii :: "string \<Rightarrow> pystr" where
  "ascii s = map of_char s"

text \<open>The values a dictionary of type \<open>Dict[str, Any]\<close> holds in this program.\<close>

datatype pyval = PNone | PStr pystr | PFloat real

type_synonym pydict = "string \<rightharpoonup> pyval"

datatype error = KeyError | TypeError | ValueError | OSError | OperationalError

text \<open>
  What the program takes from its runtime and cannot be read off \<open>logic.py\<close>: the parser
  behind \<open>float(s)\<close> on a string, the printer behind \<open>str(x)\<close> on a float, and whether
  \<open>plt.savefig\<close> manages to write the file at a path.
\<close>

record py_env =
  float_of_str :: "pystr \<Rightarrow> real option"
  str_of_float :: "real \<Rightarrow> pystr"
  savefig_ok :: "pystr \<Rightarrow> bool"

text \<open>\<open>str.isspace\<close> of one code point: the characters \<open>str.strip()\<close> removes.\<close>

definition isspace :: "nat \<Rightarrow> bool" where
  "isspace c \<longleftrightarrow>
     (9 \<le> c \<and> c \<le> 13) \<or> (28 \<le> c \<and> c \<le> 32) \<or> c = 133 \<or> c = 160 \<or> c = 5760 \<or>
     (8192 \<le> c \<and> c \<le> 8202) \<or> c = 8232 \<or> c = 8233 \<or> c = 8239 \<or> c = 8287 \<or> c = 12288"

definition strip :: "pystr \<Rightarrow> pystr" where
  "strip s = rev (dropWhile isspace (rev (dropWhile isspace s)))"

text \<open>
  \<open>LOWER\<close> of the SQL engine. The built-in function of SQLite folds the letters
  \<open>A\<close> to \<open>Z\<close> only and leaves every other character as it is.
\<close>

definition sql_lower_char :: "nat \<Rightarrow> nat" where
  "sql_lower_char c = (if 65 \<le> c \<and> c \<le> 90 then c + 32 else c)"

definition sql_lower :: "pystr \<Rightarrow> pystr" where
  "sql_lower s = map sql_lower_char s"

text \<open>Truth value of a value, as \<open>or\<close> and \<open>if\<close> test it, and the built-ins \<open>str\<close>, \<open>float\<close>.\<close>

fun truthy :: "pyval \<Rightarrow> bool" where
  "truthy PNone = False"
| "truthy (PStr s) = (s \<noteq> [])"
| "truthy (PFloat r) = (r \<noteq> 0)"

fun py_str :: "py_env \<Rightarrow> pyval \<Rightarrow> pystr" where
  "py_str env PNone = ascii ''None''"
| "py_str env (PStr s) = s"
| "py_str env (PFloat r) = str_of_float env r"

fun py_float :: "py_env \<Rightarrow> pyval \<Rightarrow> error + real" where
  "py_float env PNone = Inl TypeError"
| "py_float env (PStr s) = (case float_of_str env s of None \<Rightarrow> Inl ValueError | Some r \<Rightarrow> Inr r)"
| "py_float env (PFloat r) = Inr r"

text \<open>\<open>d.get(k, default)\<close> and \<open>d[k]\<close>.\<close>

definition dict_get :: "pydict \<Rightarrow> string \<Rightarrow> pyval \<Rightarrow> pyval" where
  "dict_get d k dflt = (case d k of None \<Rightarrow> dflt | Some v \<Rightarrow> v)"

definition dict_item :: "pydict \<Rightarrow> string \<Rightarrow> error + pyval" where
  "dict_item d k = (case d k of None \<Rightarrow> Inl KeyError | Some v \<Rightarrow> Inr v)"

section \<open>The database\<close>

text \<open>
  A row of the catalog table \<open>cities(id, city, lat, lng, country, population)\<close>, with the
  column types \<open>CityRow\<close> declares. The table \<open>users_cities\<close> is the list of its
  \<open>(user_id, city_id)\<close> rows in insertion order, or \<open>None\<close> as long as
  \<open>create_user_table\<close> has not created it. The catalog is filled beforehand and exists.
\<close>

record city =
  c_id :: int
  c_city :: pystr
  c_lat :: real
  c_lng :: real
  c_country :: pystr
  c_population :: int

type_synonym CityRow = "int \<times> pystr \<times> real \<times> real \<times> pystr \<times> int"

record db =
  cities :: "city list"
  users_cities :: "(int \<times> int) list option"

text \<open>
  The constraints the schema declares: \<open>PRIMARY KEY (user_id, city_id)\<close> on
  \<open>users_cities\<close> and the primary key \<open>id\<close> of the catalog.
\<close>

definition schema_ok :: "db \<Rightarrow> bool" where
  "schema_ok d \<longleftrightarrow>
     distinct (map c_id (cities d)) \<and>
     (case users_cities d of None \<Rightarrow> True | Some rows \<Rightarrow> distinct rows)"

definition create_user_table :: "db \<Rightarrow> db" where
  "create_user_table d =
     (case users_cities d of None \<Rightarrow> d\<lparr>users_cities := Some []\<rparr> | Some rows \<Rightarrow> d)"

text \<open>\<open>cursor.fetchone()\<close>: the first row of the result, or \<open>None\<close>.\<close>

definition fetchone :: "'a list \<Rightarrow> 'a option" where
  "fetchone rows = (case rows of [] \<Rightarrow> None | r # _ \<Rightarrow> Some r)"

definition get_city_by_name :: "db \<Rightarrow> pystr \<Rightarrow> CityRow option" where
  "get_city_by_name d city_name =
     fetchone [(c_id c, c_city c, c_lat c, c_lng c, c_country c, c_population c).
               c \<leftarrow> cities d, sql_lower (c_city c) = sql_lower (strip city_name)]"

definition get_coords_by_name :: "db \<Rightarrow> pystr \<Rightarrow> (real \<times> real \<times> pystr) option" where
  "get_coords_by_name d city_name =
     (case fetchone [(c_lat c, c_lng c, c_city c).
                     c \<leftarrow> cities d, sql_lower (c_city c) = sql_lower (strip city_name)] of
        Some (lat, lng, name) \<Rightarrow> Some (lat, lng, name)
      | None \<Rightarrow> None)"

text \<open>\<open>INSERT OR IGNORE\<close>: a row whose key is already in the table is not inserted.\<close>

definition insert_or_ignore :: "int \<times> int \<Rightarrow> (int \<times> int) list \<Rightarrow> (int \<times> int) list" where
  "insert_or_ignore r rows = (if r \<in> set rows then rows else rows @ [r])"

definition add_city :: "db \<Rightarrow> int \<Rightarrow> pystr \<Rightarrow> db \<times> (error + bool)" where
  "add_city d user_id city_name =
     (case get_city_by_name d city_name of
        None \<Rightarrow> (d, Inr False)
      | Some (city_id, _) \<Rightarrow>
          (case users_cities d of
             None \<Rightarrow> (d, Inl OperationalError)
           | Some rows \<Rightarrow>
               (d\<lparr>users_cities := Some (insert_or_ignore (user_id, city_id) rows)\<rparr>, Inr True)))"

text \<open>
  The join of \<open>select_cities\<close>, before the columns are projected: the catalog rows of the
  user's favourites, \<open>ORDER BY c.city\<close> (the engine compares the names code point by code
  point).
\<close>

definition favorite_rows :: "city list \<Rightarrow> (int \<times> int) list \<Rightarrow> int \<Rightarrow> city list" where
  "favorite_rows cs rows user_id =
     sort_key c_city [c. (uid, cid) \<leftarrow> rows, uid = user_id, c \<leftarrow> cs, c_id c = cid]"

definition city_dict :: "pystr \<times> real \<times> real \<times> pystr \<Rightarrow> pydict" where
  "city_dict r = (case r of (name, lat, lng, country) \<Rightarrow>
     [''city'' \<mapsto> PStr name, ''lat'' \<mapsto> PFloat lat, ''lon'' \<mapsto> PFloat lng,
      ''lng'' \<mapsto> PFloat lng, ''country'' \<mapsto> PStr country])"

definition select_cities :: "db \<Rightarrow> int \<Rightarrow> error + pydict list" where
  "select_cities d user_id =
     (case users_cities d of
        None \<Rightarrow> Inl OperationalError
      | Some rows \<Rightarrow>
          Inr [city_dict r.
               r \<leftarrow> map (\<lambda>c. (c_city c, c_lat c, c_lng c, c_country c))
                        (favorite_rows (cities d) rows user_id)])"

section \<open>Rendering\<close>

text \<open>
  A figure is the sequence of drawing calls made on its axes since \<open>plt.figure\<close>
  created it. The state of the plotting library is the list of its open figures, the
  newest first, together with the image files written so far; a written file holds the
  figure as it was when \<open>plt.savefig\<close> ran.
\<close>

datatype feature = LAND | OCEAN | COASTLINE | BORDERS

datatype draw = SetGlobal | AddFeature feature | Plot real real | Text real real pystr | TightLayout

type_synonym figure = "draw list"

record plt =
  open_figs :: "figure list"
  files :: "pystr \<rightharpoonup> figure"

text \<open>\<open>str(item.get("city") or item.get("name") or "")\<close>\<close>

definition item_name :: "py_env \<Rightarrow> pydict \<Rightarrow> pystr" where
  "item_name env item =
     py_str env
       (if truthy (dict_get item ''city'' PNone) then dict_get item ''city'' PNone
        else if truthy (dict_get item ''name'' PNone) then dict_get item ''name'' PNone
        else PStr [])"

text \<open>\<open>float(item["lat"])\<close>\<close>

definition item_lat :: "py_env \<Rightarrow> pydict \<Rightarrow> error + real" where
  "item_lat env item =
     (case dict_item item ''lat'' of Inl e \<Rightarrow> Inl e | Inr v \<Rightarrow> py_float env v)"

text \<open>\<open>float(item.get("lon", item.get("lng")))\<close>\<close>

definition item_lon :: "py_env \<Rightarrow> pydict \<Rightarrow> error + real" where
  "item_lon env item = py_float env (dict_get item ''lon'' (dict_get item ''lng'' PNone))"

text \<open>The body of the loop over the points, on the axes \<open>ax\<close>.\<close>

definition plot_city :: "py_env \<Rightarrow> figure \<Rightarrow> pydict \<Rightarrow> error + figure" where
  "plot_city env ax item =
     (let name = item_name env item in
      case item_lat env item of
        Inl e \<Rightarrow> Inl e
      | Inr lat \<Rightarrow>
          (case item_lon env item of
             Inl e \<Rightarrow> Inl e
           | Inr lon \<Rightarrow>
               (let ax1 = ax @ [Plot lon lat] in
                if name \<noteq> [] then Inr (ax1 @ [Text (lon + 1) (lat + 1) name]) else Inr ax1)))"

text \<open>The loop: it stops at the first point that raises, with the axes as drawn so far.\<close>

fun plot_cities :: "py_env \<Rightarrow> figure \<Rightarrow> pydict list \<Rightarrow> figure \<times> error option" where
  "plot_cities env ax [] = (ax, None)"
| "plot_cities env ax (item # rest) =
     (case plot_city env ax item of
        Inl e \<Rightarrow> (ax, Some e)
      | Inr ax1 \<Rightarrow> plot_cities env ax1 rest)"

text \<open>
  \<open>create_graph\<close>: the new figure is open from \<open>plt.figure\<close> on, and \<open>plt.close(fig)\<close>
  is reached only after the loop and \<open>plt.savefig\<close> have returned; an exception leaves
  the function at the statement that raised it. \<open>items\<close> is the argument \<open>cities\<close>.
\<close>

definition create_graph :: "py_env \<Rightarrow> plt \<Rightarrow> pystr \<Rightarrow> pydict list \<Rightarrow> plt \<times> (error + pystr)" where
  "create_graph env st out_path items =
     (let ax = [SetGlobal, AddFeature LAND, AddFeature OCEAN, AddFeature COASTLINE,
                AddFeature BORDERS] in
      case plot_cities env ax items of
        (ax1, Some e) \<Rightarrow> (st\<lparr>open_figs := ax1 # open_figs st\<rparr>, Inl e)
      | (ax1, None) \<Rightarrow>
          (let fig = ax1 @ [TightLayout] in
           if savefig_ok env out_path
           then (st\<lparr>files := (files st)(out_path \<mapsto> fig)\<rparr>, Inr out_path)
           else (st\<lparr>open_figs := fig # open_figs st\<rparr>, Inl OSError)))"

section \<open>Notions the properties are stated with\<close>

text \<open>
  Two strings are case variants over the letters \<open>A\<close> to \<open>Z\<close> when they have the same
  length and differ at most by the case of such letters.
\<close>

definition same_letter :: "nat \<Rightarrow> nat \<Rightarrow> bool" where
  "same_letter a b \<longleftrightarrow>
     a = b \<or> (65 \<le> a \<and> a \<le> 90 \<and> b = a + 32) \<or> (65 \<le> b \<and> b \<le> 90 \<and> a = b + 32)"

definition ascii_case_variant :: "pystr \<Rightarrow> pystr \<Rightarrow> bool" where
  "ascii_case_variant s t \<longleftrightarrow> list_all2 same_letter s t"

text \<open>
  Letter case as Unicode has it, on the code points below 256: besides \<open>A\<close> to \<open>Z\<close>, the
  capital letters U+00C0 to U+00DE of Latin-1 (all but the sign U+00D7) have their small
  letter 32 places further.
\<close>

definition latin1_lower :: "nat \<Rightarrow> nat" where
  "latin1_lower c =
     (if (65 \<le> c \<and> c \<le> 90) \<or> (192 \<le> c \<and> c \<le> 222 \<and> c \<noteq> 215) then c + 32 else c)"

definition latin1_case_variant :: "pystr \<Rightarrow> pystr \<Rightarrow> bool" where
  "latin1_case_variant s t \<longleftrightarrow> map latin1_lower s = map latin1_lower t"

section \<open>Example data\<close>

text \<open>A small catalog, a database with an empty \<open>users_cities\<close> table, and a user.\<close>

definition london :: city where
  "london = \<lparr>c_id = 1, c_city = ascii ''London'', c_lat = 51.5, c_lng = - 0.12,
     c_country = ascii ''United Kingdom'', c_population = 8900000\<rparr>"

definition zurich :: city where
  "zurich = \<lparr>c_id = 2, c_city = ascii ''Zurich'', c_lat = 47.37, c_lng = 8.54,
     c_country = ascii ''Switzerland'', c_population = 400000\<rparr>"

definition amsterdam :: city where
  "amsterdam = \<lparr>c_id = 3, c_city = ascii ''Amsterdam'', c_lat = 52.37, c_lng = 4.9,
     c_country = ascii ''Netherlands'', c_population = 870000\<rparr>"

definition db0 :: db where
  "db0 = \<lparr>cities = [london, zurich, amsterdam], users_cities = Some []\<rparr>"

text \<open>
  A catalog that stores Zurich under its German name, whose second letter is U+00FC, and
  the same name in capitals, whose second letter is U+00DC.
\<close>

definition zuerich_name :: pystr where
  "zuerich_name = [90, 252, 114, 105, 99, 104]"

definition zuerich_capitals :: pystr where
  "zuerich_capitals = [90, 220, 82, 73, 67, 72]"

definition db_zuerich :: db where
  "db_zuerich = \<lparr>cities = [zurich\<lparr>c_city := zuerich_name\<rparr>], users_cities = Some []\<rparr>"

text \<open>
  Two runtimes, one where \<open>plt.savefig\<close> succeeds and one where it raises. The values
  of the examples are floats and strings already, so the parser and the printer are not
  reached.
\<close>

definition env_ok :: py_env where
  "env_ok = \<lparr>float_of_str = (\<lambda>s. None), str_of_float = (\<lambda>r. ascii ''0.0''),
     savefig_ok = (\<lambda>p. True)\<rparr>"

definition env_fail :: py_env where
  "env_fail = env_ok\<lparr>savefig_ok := (\<lambda>p. False)\<rparr>"

definition plt0 :: plt where
  "plt0 = \<lparr>open_figs = [], files = Map.empty\<rparr>"

text \<open>
  Points for \<open>create_graph\<close>: one with a label and a latitude but no longitude yet, and
  one with coordinates but neither a \<open>city\<close> nor a \<open>name\<close>.
\<close>

definition point_x :: pydict where
  "point_x = [''city'' \<mapsto> PStr (ascii ''X''), ''lat'' \<mapsto> PFloat 10]"

definition point_bare :: pydict where
  "point_bare = [''lat'' \<mapsto> PFloat 10, ''lon'' \<mapsto> PFloat 20]"

text \<open>The database after user 7 has added Zurich and then Amsterdam.\<close>

definition db_two :: db where
  "db_two = fst (add_city (fst (add_city db0 7 (ascii ''Zurich''))) 7 (ascii ''Amsterdam''))"

section \<open>Lemmas about the queries\<close>

lemma select_where: "concat (map (\<lambda>c. if P c then [f c] else []) xs) = map f (filter P xs)"
  by (induction xs) simp_all

lemma fetchone_map: "fetchone (map f xs) = map_option f (fetchone xs)"
  by (cases xs) (simp_all add: fetchone_def)

lemma fetchone_filter_None: "fetchone (filter P xs) = None \<longleftrightarrow> (\<forall>x\<in>set xs. \<not> P x)"
proof -
  have "fetchone ys = None \<longleftrightarrow> ys = []" for ys :: "'a list"
    by (cases ys) (simp_all add: fetchone_def)
  then show ?thesis by (simp add: filter_empty_conv)
qed

lemma fetchone_filter_Some: "fetchone (filter P xs) = Some x \<Longrightarrow> x \<in> set xs \<and> P x"
proof -
  assume "fetchone (filter P xs) = Some x"
  then have "x \<in> set (filter P xs)"
    by (cases "filter P xs") (simp_all add: fetchone_def)
  then show ?thesis by simp
qed

lemma get_city_by_name_eq:
  "get_city_by_name d s =
     map_option (\<lambda>c. (c_id c, c_city c, c_lat c, c_lng c, c_country c, c_population c))
       (fetchone (filter (\<lambda>c. sql_lower (c_city c) = sql_lower (strip s)) (cities d)))"
  unfolding get_city_by_name_def by (simp add: select_where fetchone_map)

lemma join_eq:
  "[c. (uid, cid) \<leftarrow> rows, uid = u, c \<leftarrow> cs, c_id c = cid] =
   concat (map (\<lambda>r. if fst r = u then filter (\<lambda>c. c_id c = snd r) cs else []) rows)"
  by (induction rows) (auto simp: select_where [where f = "\<lambda>c. c", simplified])

lemma set_join:
  "set [c. (uid, cid) \<leftarrow> rows, uid = u, c \<leftarrow> cs, c_id c = cid] =
   {c \<in> set cs. (u, c_id c) \<in> set rows}"
  unfolding join_eq by (induction rows) auto

lemma count_join:
  "length (filter (\<lambda>c. c_id c = i) [c. (uid, cid) \<leftarrow> rows, uid = u, c \<leftarrow> cs, c_id c = cid]) =
   count_list rows (u, i) * length (filter (\<lambda>c. c_id c = i) cs)"
  unfolding join_eq
proof (induction rows)
  case Nil
  show ?case by simp
next
  case (Cons r rows)
  have "filter (\<lambda>c. c_id c = i) (filter (\<lambda>c. c_id c = snd r) cs) =
        (if snd r = i then filter (\<lambda>c. c_id c = i) cs else [])"
    by (induction cs) auto
  with Cons show ?case by (cases r) auto
qed

lemma distinct_key_once:
  "distinct (map f xs) \<Longrightarrow> x \<in> set xs \<Longrightarrow> length (filter (\<lambda>y. f y = f x) xs) = 1"
proof (induction xs)
  case Nil
  then show ?case by simp
next
  case (Cons a xs)
  show ?case
  proof (cases "f a = f x")
    case True
    from Cons.prems have "f a \<notin> f ` set xs"
      by simp
    with True have "\<forall>y\<in>set xs. f y \<noteq> f x"
      by (metis imageI)
    then have "filter (\<lambda>y. f y = f x) xs = []"
      by (simp add: filter_empty_conv)
    with True show ?thesis by simp
  next
    case False
    with Cons show ?thesis by auto
  qed
qed

lemma distinct_count_once: "distinct xs \<Longrightarrow> x \<in> set xs \<Longrightarrow> count_list xs x = 1"
  by (induction xs) auto

lemma insert_or_ignore_distinct: "distinct rows \<Longrightarrow> distinct (insert_or_ignore r rows)"
  by (simp add: insert_or_ignore_def)

lemma insert_or_ignore_mem: "r \<in> set (insert_or_ignore r rows)"
  by (simp add: insert_or_ignore_def)

lemma insert_or_ignore_again: "insert_or_ignore r (insert_or_ignore r rows) = insert_or_ignore r rows"
  by (simp add: insert_or_ignore_def)

text \<open>
  \<open>create_user_table\<close> makes the table exist, and the operations keep the key
  constraints.
\<close>

lemma create_user_table_exists: "\<exists>rows. users_cities (create_user_table d) = Some rows"
  by (cases "users_cities d") (simp_all add: create_user_table_def)

lemma create_user_table_schema_ok: "schema_ok d \<Longrightarrow> schema_ok (create_user_table d)"
  by (cases "users_cities d") (simp_all add: create_user_table_def schema_ok_def)

lemma add_city_schema_ok: "schema_ok d \<Longrightarrow> schema_ok (fst (add_city d u s))"
  by (auto simp: add_city_def schema_ok_def insert_or_ignore_distinct split: option.splits)

lemma dropWhile_rel:
  "list_all2 R xs ys \<Longrightarrow> (\<And>a b. R a b \<Longrightarrow> P a = P b) \<Longrightarrow>
   list_all2 R (dropWhile P xs) (dropWhile P ys)"
  by (induction rule: list_all2_induct) auto

lemma same_letter_isspace: "same_letter a b \<Longrightarrow> isspace a = isspace b"
  unfolding same_letter_def isspace_def by (elim disjE conjE) simp_all

lemma same_letter_lower: "same_letter a b \<longleftrightarrow> sql_lower_char a = sql_lower_char b"
  unfolding same_letter_def sql_lower_char_def
  by (cases "65 \<le> a \<and> a \<le> 90"; cases "65 \<le> b \<and> b \<le> 90"; simp; linarith)

lemma strip_case_variant:
  assumes "ascii_case_variant s t"
  shows "ascii_case_variant (strip s) (strip t)"
  using assms unfolding ascii_case_variant_def strip_def
  by (intro list_all2_rev dropWhile_rel same_letter_isspace | simp add: list_all2_rev1)+

lemma ascii_case_variant_iff: "ascii_case_variant s t \<longleftrightarrow> sql_lower s = sql_lower t"
proof -
  have "sql_lower s = sql_lower t \<longleftrightarrow> list_all2 (=) (map sql_lower_char s) (map sql_lower_char t)"
    by (simp add: sql_lower_def list.rel_eq)
  also have "\<dots> \<longleftrightarrow> list_all2 (\<lambda>a b. sql_lower_char a = sql_lower_char b) s t"
    by (simp add: list.rel_map)
  also have "(\<lambda>a b. sql_lower_char a = sql_lower_char b) = same_letter"
    by (intro ext) (simp add: same_letter_lower)
  finally show ?thesis by (simp add: ascii_case_variant_def)
qed

lemma select_cities_eq:
  "select_cities d u =
     (case users_cities d of None \<Rightarrow> Inl OperationalError
      | Some rows \<Rightarrow> Inr (map (\<lambda>c. city_dict (c_city c, c_lat c, c_lng c, c_country c))
                             (favorite_rows (cities d) rows u)))"
  by (simp add: select_cities_def comp_def split: option.splits)

lemma city_dict_city: "city_dict (n, la, lo, co) ''city'' = Some (PStr n)"
  by (simp add: city_dict_def)

lemma city_dict_lon: "city_dict (n, la, lo, co) ''lon'' = Some (PFloat lo)"
  by (simp add: city_dict_def)

lemma city_dict_lng: "city_dict (n, la, lo, co) ''lng'' = Some (PFloat lo)"
  by (simp add: city_dict_def)

lemma set_favorite_rows:
  "set (favorite_rows cs rows u) = {c \<in> set cs. (u, c_id c) \<in> set rows}"
  by (simp only: favorite_rows_def set_sort set_join)

lemma sorted_favorite_rows: "sorted (map c_city (favorite_rows cs rows u))"
  by (simp add: favorite_rows_def)

lemmas ex_defs = db0_def london_def zurich_def amsterdam_def ascii_def
  get_city_by_name_def fetchone_def strip_def isspace_def sql_lower_def sql_lower_char_def

lemma db_two_eq:
  "db_two = \<lparr>cities = [london, zurich, amsterdam], users_cities = Some [(7, 2), (7, 3)]\<rparr>"
  by (simp add: db_two_def add_city_def insert_or_ignore_def ex_defs)

section \<open>Lemmas about the loop over the points\<close>

lemma plot_city_cases:
  "plot_city env ax item =
     (case item_lat env item of
        Inl e \<Rightarrow> Inl e
      | Inr la \<Rightarrow>
          (case item_lon env item of
             Inl e \<Rightarrow> Inl e
           | Inr lo \<Rightarrow>
               Inr (ax @ Plot lo la #
                      (if item_name env item = [] then []
                       else [Text (lo + 1) (la + 1) (item_name env item)]))))"
  by (simp add: plot_city_def Let_def split: sum.splits)

lemma plot_cities_append:
  "plot_cities env ax (pre @ post) =
     (case plot_cities env ax pre of
        (ax1, Some e) \<Rightarrow> (ax1, Some e)
      | (ax1, None) \<Rightarrow> plot_cities env ax1 post)"
  by (induction pre arbitrary: ax) (simp_all split: sum.splits)

lemma plot_cities_None:
  "plot_cities env ax items = (ax', None) \<Longrightarrow>
   \<exists>segs. ax' = ax @ concat segs \<and>
     list_all2 (\<lambda>item seg. \<exists>la lo. item_lat env item = Inr la \<and> item_lon env item = Inr lo \<and>
        seg = Plot lo la # (if item_name env item = [] then []
                            else [Text (lo + 1) (la + 1) (item_name env item)])) items segs"
proof (induction items arbitrary: ax)
  case Nil
  then show ?case by (intro exI [of _ "[]"]) simp
next
  case (Cons item items)
  from Cons.prems obtain ax1 where step: "plot_city env ax item = Inr ax1"
    and rest: "plot_cities env ax1 items = (ax', None)"
    by (auto split: sum.splits)
  from step obtain la lo where la: "item_lat env item = Inr la" and lo: "item_lon env item = Inr lo"
    and ax1: "ax1 = ax @ Plot lo la # (if item_name env item = [] then []
                            else [Text (lo + 1) (la + 1) (item_name env item)])"
    unfolding plot_city_cases by (auto split: sum.splits)
  from Cons.IH [OF rest] obtain segs where segs: "ax' = ax1 @ concat segs"
    and all: "list_all2 (\<lambda>item seg. \<exists>la lo. item_lat env item = Inr la \<and> item_lon env item = Inr lo \<and>
        seg = Plot lo la # (if item_name env item = [] then []
                            else [Text (lo + 1) (la + 1) (item_name env item)])) items segs"
    by blast
  let ?seg = "Plot lo la # (if item_name env item = [] then []
                            else [Text (lo + 1) (la + 1) (item_name env item)])"
  have "ax' = ax @ concat (?seg # segs)"
    using segs ax1 by simp
  moreover have "list_all2 (\<lambda>item seg. \<exists>la lo. item_lat env item = Inr la \<and> item_lon env item = Inr lo \<and>
        seg = Plot lo la # (if item_name env item = [] then []
                            else [Text (lo + 1) (la + 1) (item_name env item)])) (item # items) (?seg # segs)"
    using all la lo by simp
  ultimately show ?case by blast
qed

lemma plot_cities_total:
  "\<forall>q\<in>set items. \<exists>la lo. item_lat env q = Inr la \<and> item_lon env q = Inr lo \<Longrightarrow>
   \<exists>ax'. plot_cities env ax items = (ax', None)"
proof (induction items arbitrary: ax)
  case Nil
  show ?case by simp
next
  case (Cons item items)
  then obtain la lo where "item_lat env item = Inr la" "item_lon env item = Inr lo"
    by auto
  then obtain ax1 where "plot_city env ax item = Inr ax1"
    by (simp add: plot_city_cases)
  moreover from Cons obtain ax' where "plot_cities env ax1 items = (ax', None)"
    by (meson list.set_intros(2))
  ultimately show ?case by simp
qed

lemma plot_cities_cong:
  "(\<And>ax. plot_city env ax a = plot_city env ax b) \<Longrightarrow>
   plot_cities env ax (pre @ a # post) = plot_cities env ax (pre @ b # post)"
  by (simp add: plot_cities_append split: prod.splits option.splits)

lemma plot_cities_error:
  "(\<And>ax. isl (plot_city env ax item)) \<Longrightarrow>
   snd (plot_cities env ax (pre @ item # post)) \<noteq> None"
proof -
  assume bad: "\<And>ax. isl (plot_city env ax item)"
  have "snd (plot_cities env ax1 (item # post)) \<noteq> None" for ax1
    using bad [of ax1] by (cases "plot_city env ax1 item") simp_all
  then show ?thesis
    by (cases "plot_cities env ax pre") (auto simp: plot_cities_append split: option.splits)
qed

lemma create_graph_cases:
  "create_graph env st out_path items =
     (case plot_cities env [SetGlobal, AddFeature LAND, AddFeature OCEAN, AddFeature COASTLINE,
                AddFeature BORDERS] items of
        (ax1, Some e) \<Rightarrow> (st\<lparr>open_figs := ax1 # open_figs st\<rparr>, Inl e)
      | (ax1, None) \<Rightarrow>
           if savefig_ok env out_path
           then (st\<lparr>files := (files st)(out_path \<mapsto> ax1 @ [TightLayout])\<rparr>, Inr out_path)
           else (st\<lparr>open_figs := (ax1 @ [TightLayout]) # open_figs st\<rparr>, Inl OSError))"
  by (simp add: create_graph_def Let_def)

lemma plot_city_depends:
  assumes "item_name env a = item_name env b"
    and "item_lat env a = item_lat env b"
    and "item_lon env a = item_lon env b"
  shows "plot_city env ax a = plot_city env ax b"
  unfolding plot_city_cases assms ..

lemma item_swap:
  assumes "item ''lon'' = None" "item ''lng'' = None"
  shows "plot_city env ax (item(''lng'' \<mapsto> v)) = plot_city env ax (item(''lon'' \<mapsto> v))"
proof (rule plot_city_depends)
  show "item_name env (item(''lng'' \<mapsto> v)) = item_name env (item(''lon'' \<mapsto> v))"
    by (simp add: item_name_def dict_get_def)
  show "item_lat env (item(''lng'' \<mapsto> v)) = item_lat env (item(''lon'' \<mapsto> v))"
    by (simp add: item_lat_def dict_item_def)
  show "item_lon env (item(''lng'' \<mapsto> v)) = item_lon env (item(''lon'' \<mapsto> v))"
    using assms by (simp add: item_lon_def dict_get_def)
qed

lemma item_lon_missing:
  "item ''lon'' = None \<Longrightarrow> item ''lng'' = None \<Longrightarrow> item_lon env item = Inl TypeError"
  by (simp add: item_lon_def dict_get_def)

lemma item_name_empty:
  assumes "item ''city'' = None \<or> item ''city'' = Some (PStr [])"
    and "item ''name'' = None \<or> item ''name'' = Some (PStr [])"
  shows "item_name env item = []"
  using assms by (auto simp: item_name_def dict_get_def)

section \<open>Properties of the catalog\<close>

text \<open>
  What the lookup does: it matches the trimmed input against the catalog names exactly, up
  to the case of the letters \<open>A\<close> to \<open>Z\<close>. Two inputs that are case variants over these
  letters get the same result; the result is \<open>None\<close> exactly when no catalog name is such a
  case variant of the trimmed input; and a result is the full row of a catalog city whose
  name is one.
\<close>

lemma get_city_by_name_ascii_case:
  "(ascii_case_variant s t \<longrightarrow> get_city_by_name d s = get_city_by_name d t) \<and>
   (get_city_by_name d s = None \<longleftrightarrow>
      (\<forall>c\<in>set (cities d). \<not> ascii_case_variant (c_city c) (strip s))) \<and>
   (\<forall>r. get_city_by_name d s = Some r \<longrightarrow>
      (\<exists>c\<in>set (cities d). ascii_case_variant (c_city c) (strip s) \<and>
         r = (c_id c, c_city c, c_lat c, c_lng c, c_country c, c_population c)))"
proof (intro conjI impI allI)
  assume "ascii_case_variant s t"
  then have "sql_lower (strip s) = sql_lower (strip t)"
    using strip_case_variant ascii_case_variant_iff by blast
  then show "get_city_by_name d s = get_city_by_name d t"
    by (simp add: get_city_by_name_def)
next
  show "get_city_by_name d s = None \<longleftrightarrow>
      (\<forall>c\<in>set (cities d). \<not> ascii_case_variant (c_city c) (strip s))"
    by (simp add: get_city_by_name_eq fetchone_filter_None ascii_case_variant_iff)
next
  fix r
  assume "get_city_by_name d s = Some r"
  then obtain c where "fetchone (filter (\<lambda>c. sql_lower (c_city c) = sql_lower (strip s)) (cities d)) = Some c"
    and r: "r = (c_id c, c_city c, c_lat c, c_lng c, c_country c, c_population c)"
    unfolding get_city_by_name_eq by auto
  then have "c \<in> set (cities d)" "ascii_case_variant (c_city c) (strip s)"
    by (auto dest: fetchone_filter_Some simp: ascii_case_variant_iff)
  with r show "\<exists>c\<in>set (cities d). ascii_case_variant (c_city c) (strip s) \<and>
         r = (c_id c, c_city c, c_lat c, c_lng c, c_country c, c_population c)"
    by blast
qed

lemma get_city_by_name_ascii_case_example:
  "ascii_case_variant (ascii ''  LONDON '') (ascii ''  London '') \<and>
   get_city_by_name db0 (ascii ''  LONDON '') = get_city_by_name db0 (ascii ''  London '') \<and>
   get_city_by_name db0 (ascii ''  LONDON '') =
     Some (1, ascii ''London'', 51.5, - 0.12, ascii ''United Kingdom'', 8900000) \<and>
   (\<exists>c\<in>set (cities db0). ascii_case_variant (c_city c) (strip (ascii ''  LONDON ''))) \<and>
   get_city_by_name db0 (ascii ''Paris'') = None \<and>
   \<not> ascii_case_variant (c_city london) (strip (ascii ''Paris''))"
proof -
  have v: "ascii_case_variant (ascii ''  LONDON '') (ascii ''  London '')"
    by (simp add: ascii_case_variant_def same_letter_def ascii_def)
  have g: "get_city_by_name db0 (ascii ''  LONDON '') =
     Some (1, ascii ''London'', 51.5, - 0.12, ascii ''United Kingdom'', 8900000)"
    by (simp add: ex_defs)
  have n: "get_city_by_name db0 (ascii ''Paris'') = None"
    by (simp add: ex_defs)
  note t = get_city_by_name_ascii_case [of "ascii ''  LONDON ''" "ascii ''  London ''" db0]
  note p = get_city_by_name_ascii_case [of "ascii ''Paris''" "ascii ''Paris''" db0]
  have "get_city_by_name db0 (ascii ''  LONDON '') = get_city_by_name db0 (ascii ''  London '')"
    using t v by blast
  moreover have "\<exists>c\<in>set (cities db0). ascii_case_variant (c_city c) (strip (ascii ''  LONDON ''))"
    using t g by blast
  moreover have "\<forall>c\<in>set (cities db0). \<not> ascii_case_variant (c_city c) (strip (ascii ''Paris''))"
    using p n by blast
  then have "\<not> ascii_case_variant (c_city london) (strip (ascii ''Paris''))"
    by (simp add: db0_def)
  ultimately show ?thesis using v g n by blast
qed

text \<open>
  C3: the lookup is to ignore case, for every case variant of the input, and the docstring
  of \<open>get_city_by_name\<close> says so as well. The code does not for letters beyond \<open>A\<close> to
  \<open>Z\<close>: the catalog holds the name with the small letter U+00FC, the input has the
  capital U+00DC in its place, and the lookup finds nothing, while the input in the stored
  spelling is found.
\<close>

theorem get_city_by_name_case_failing_input:
  "latin1_case_variant zuerich_capitals zuerich_name \<and>
   get_city_by_name db_zuerich zuerich_capitals = None \<and>
   get_city_by_name db_zuerich zuerich_name =
     Some (2, zuerich_name, 47.37, 8.54, ascii ''Switzerland'', 400000)"
  by (simp add: latin1_case_variant_def latin1_lower_def zuerich_capitals_def zuerich_name_def
        db_zuerich_def ex_defs)

text \<open>
  C5: \<open>get_coords_by_name\<close> is the projection of \<open>get_city_by_name\<close> to latitude,
  longitude and stored name: it finds a city exactly when the lookup does, and returns
  these three fields of the row the lookup returns.
\<close>

theorem get_coords_by_name_projection:
  "get_coords_by_name d s =
     map_option (\<lambda>(i, name, lat, lng, country, pop). (lat, lng, name)) (get_city_by_name d s)"
  unfolding get_coords_by_name_def get_city_by_name_def
  by (simp add: select_where fetchone_map option.map_comp comp_def split: option.splits)

section \<open>Properties of the favourites\<close>

text \<open>
  C1: when the lookup finds no city for the name, \<open>add_city\<close> returns \<open>False\<close> and
  leaves the database as it was, so \<open>select_cities\<close> gives the same list before and
  after.
\<close>

theorem add_city_unknown:
  assumes "get_city_by_name d s = None"
  shows "add_city d u s = (d, Inr False) \<and> select_cities (fst (add_city d u s)) u = select_cities d u"
  using assms by (simp add: add_city_def)

theorem add_city_unknown_witness:
  "get_city_by_name db0 (ascii ''Nonexistent City'') = None \<and>
   add_city db0 7 (ascii ''Nonexistent City'') = (db0, Inr False) \<and>
   select_cities (fst (add_city db0 7 (ascii ''Nonexistent City''))) 7 = select_cities db0 7"
proof -
  have h: "get_city_by_name db0 (ascii ''Nonexistent City'') = None"
    by (simp add: ex_defs)
  show ?thesis
    by (intro conjI h add_city_unknown [OF h, THEN conjunct1] add_city_unknown [OF h, THEN conjunct2])
qed

text \<open>
  C2: \<open>add_city\<close> is idempotent. With the \<open>users_cities\<close> table created and the key
  constraints of the schema in force, two calls for a name the catalog resolves both
  return \<open>True\<close>, the second changes nothing, the table holds the row of the user and
  the city once, and \<open>select_cities\<close> lists the city once. No call raises.
\<close>

theorem add_city_idempotent:
  assumes ok: "schema_ok d"
    and tbl: "users_cities d = Some rows"
    and hit: "get_city_by_name d s = Some (i, rest)"
  shows "let (d1, r1) = add_city d u s; (d2, r2) = add_city d1 u s in
         r1 = Inr True \<and> r2 = Inr True \<and> d2 = d1 \<and>
         (\<exists>rows2. users_cities d2 = Some rows2 \<and> count_list rows2 (u, i) = 1 \<and>
            select_cities d2 u =
              Inr (map (\<lambda>c. city_dict (c_city c, c_lat c, c_lng c, c_country c))
                     (favorite_rows (cities d2) rows2 u)) \<and>
            length (filter (\<lambda>c. c_id c = i) (favorite_rows (cities d2) rows2 u)) = 1)"
proof -
  let ?rows1 = "insert_or_ignore (u, i) rows"
  let ?d1 = "d\<lparr>users_cities := Some ?rows1\<rparr>"
  have first: "add_city d u s = (?d1, Inr True)"
    using tbl hit by (simp add: add_city_def)
  have hit1: "get_city_by_name ?d1 s = Some (i, rest)"
    using hit by (simp add: get_city_by_name_def)
  have second: "add_city ?d1 u s = (?d1, Inr True)"
    using hit1 by (simp add: add_city_def insert_or_ignore_again)
  have dist: "distinct ?rows1"
    using ok tbl by (simp add: schema_ok_def insert_or_ignore_distinct)
  have once: "count_list ?rows1 (u, i) = 1"
    using dist by (rule distinct_count_once) (rule insert_or_ignore_mem)
  obtain c where c: "c \<in> set (cities d)" "c_id c = i"
    using hit unfolding get_city_by_name_eq by (auto dest: fetchone_filter_Some)
  have "length (filter (\<lambda>y. c_id y = c_id c) (cities d)) = 1"
    using ok c(1) by (intro distinct_key_once) (simp add: schema_ok_def)
  then have cat: "length (filter (\<lambda>y. c_id y = i) (cities d)) = 1"
    using c(2) by simp
  have fav: "length (filter (\<lambda>c. c_id c = i) (favorite_rows (cities ?d1) ?rows1 u)) = 1"
    unfolding favorite_rows_def filter_sort length_sort count_join using once cat by simp
  have sel: "select_cities ?d1 u =
      Inr (map (\<lambda>c. city_dict (c_city c, c_lat c, c_lng c, c_country c))
             (favorite_rows (cities ?d1) ?rows1 u))"
    by (simp add: select_cities_def comp_def)
  show ?thesis
    using once fav sel by (simp add: first second)
qed

theorem add_city_idempotent_witness:
  "schema_ok db0 \<and> users_cities db0 = Some [] \<and>
   get_city_by_name db0 (ascii ''London'') =
     Some (1, ascii ''London'', 51.5, - 0.12, ascii ''United Kingdom'', 8900000) \<and>
   (let (d1, r1) = add_city db0 7 (ascii ''London''); (d2, r2) = add_city d1 7 (ascii ''London'') in
         r1 = Inr True \<and> r2 = Inr True \<and> d2 = d1 \<and>
         (\<exists>rows2. users_cities d2 = Some rows2 \<and> count_list rows2 (7, 1) = 1 \<and>
            select_cities d2 7 =
              Inr (map (\<lambda>c. city_dict (c_city c, c_lat c, c_lng c, c_country c))
                     (favorite_rows (cities d2) rows2 7)) \<and>
            length (filter (\<lambda>c. c_id c = 1) (favorite_rows (cities d2) rows2 7)) = 1))"
proof -
  have h1: "schema_ok db0"
    by (simp add: schema_ok_def ex_defs)
  have h2: "users_cities db0 = Some []"
    by (simp add: db0_def)
  have h3: "get_city_by_name db0 (ascii ''London'') =
     Some (1, ascii ''London'', 51.5, - 0.12, ascii ''United Kingdom'', 8900000)"
    by (simp add: ex_defs)
  show ?thesis
    by (intro conjI h1 h2 h3 add_city_idempotent [OF h1 h2 h3])
qed

text \<open>
  C6: with the \<open>users_cities\<close> table created, \<open>select_cities\<close> returns the records of
  the user's favourite cities with their names in ascending order, whatever the order of
  the rows in the table, that is the order in which they were added.
\<close>

theorem select_cities_sorted:
  assumes "users_cities d = Some rows"
  shows "\<exists>ds names. select_cities d u = Inr ds \<and>
           map (\<lambda>x. x ''city'') ds = map (\<lambda>n. Some (PStr n)) names \<and>
           sorted names \<and>
           set names = {c_city c |c. c \<in> set (cities d) \<and> (u, c_id c) \<in> set rows}"
proof -
  let ?fav = "favorite_rows (cities d) rows u"
  let ?ds = "map (\<lambda>c. city_dict (c_city c, c_lat c, c_lng c, c_country c)) ?fav"
  have "select_cities d u = Inr ?ds"
    using assms by (simp add: select_cities_eq)
  moreover have "map (\<lambda>x. x ''city'') ?ds = map (\<lambda>n. Some (PStr n)) (map c_city ?fav)"
    by (simp add: comp_def city_dict_city)
  moreover have "sorted (map c_city ?fav)"
    by (rule sorted_favorite_rows)
  moreover have "set (map c_city ?fav) = {c_city c |c. c \<in> set (cities d) \<and> (u, c_id c) \<in> set rows}"
    by (auto simp: set_favorite_rows)
  ultimately show ?thesis by blast
qed

theorem select_cities_sorted_witness:
  "users_cities db_two = Some [(7, 2), (7, 3)] \<and>
   (\<exists>ds names. select_cities db_two 7 = Inr ds \<and>
           map (\<lambda>x. x ''city'') ds = map (\<lambda>n. Some (PStr n)) names \<and>
           sorted names \<and>
           set names = {c_city c |c. c \<in> set (cities db_two) \<and> (7, c_id c) \<in> set [(7::int, 2), (7, 3)]}) \<and>
   map (\<lambda>x. x ''city'') (projr (select_cities db_two 7)) =
     [Some (PStr (ascii ''Amsterdam'')), Some (PStr (ascii ''Zurich''))]"
proof -
  have h: "users_cities db_two = Some [(7, 2), (7, 3)]"
    by (simp add: db_two_eq)
  have e: "map (\<lambda>x. x ''city'') (projr (select_cities db_two 7)) =
     [Some (PStr (ascii ''Amsterdam'')), Some (PStr (ascii ''Zurich''))]"
    by (simp add: db_two_eq select_cities_eq favorite_rows_def city_dict_def
          london_def zurich_def amsterdam_def ascii_def)
  show ?thesis
    by (intro conjI h e select_cities_sorted [OF h])
qed

text \<open>
  C9: every record \<open>select_cities\<close> returns has the keys \<open>lon\<close> and \<open>lng\<close> with the
  same value, the longitude the catalog stores for the city of the record.
\<close>

theorem select_cities_lon_lng:
  assumes "select_cities d u = Inr ds"
  shows "\<forall>x\<in>set ds. x ''lon'' = x ''lng'' \<and>
           (\<exists>c\<in>set (cities d). x ''city'' = Some (PStr (c_city c)) \<and>
              x ''lon'' = Some (PFloat (c_lng c)) \<and> x ''lng'' = Some (PFloat (c_lng c)))"
proof
  fix x
  assume x: "x \<in> set ds"
  from assms obtain rows where rows: "users_cities d = Some rows"
    and ds: "ds = map (\<lambda>c. city_dict (c_city c, c_lat c, c_lng c, c_country c))
                    (favorite_rows (cities d) rows u)"
    by (auto simp: select_cities_eq split: option.splits)
  from x ds obtain c where "c \<in> set (favorite_rows (cities d) rows u)"
    and xc: "x = city_dict (c_city c, c_lat c, c_lng c, c_country c)"
    by auto
  then have "c \<in> set (cities d)"
    by (simp add: set_favorite_rows)
  then show "x ''lon'' = x ''lng'' \<and>
           (\<exists>c\<in>set (cities d). x ''city'' = Some (PStr (c_city c)) \<and>
              x ''lon'' = Some (PFloat (c_lng c)) \<and> x ''lng'' = Some (PFloat (c_lng c)))"
    unfolding xc by (auto simp: city_dict_city city_dict_lon city_dict_lng)
qed

theorem select_cities_lon_lng_witness:
  "select_cities db_two 7 =
     Inr [city_dict (ascii ''Amsterdam'', 52.37, 4.9, ascii ''Netherlands''),
          city_dict (ascii ''Zurich'', 47.37, 8.54, ascii ''Switzerland'')] \<and>
   city_dict (ascii ''Zurich'', 47.37, 8.54, ascii ''Switzerland'') ''lon'' =
     city_dict (ascii ''Zurich'', 47.37, 8.54, ascii ''Switzerland'') ''lng'' \<and>
   (\<exists>c\<in>set (cities db_two).
      city_dict (ascii ''Zurich'', 47.37, 8.54, ascii ''Switzerland'') ''city'' =
        Some (PStr (c_city c)) \<and>
      city_dict (ascii ''Zurich'', 47.37, 8.54, ascii ''Switzerland'') ''lon'' =
        Some (PFloat (c_lng c)) \<and>
      city_dict (ascii ''Zurich'', 47.37, 8.54, ascii ''Switzerland'') ''lng'' =
        Some (PFloat (c_lng c)))"
proof -
  have h: "select_cities db_two 7 =
     Inr [city_dict (ascii ''Amsterdam'', 52.37, 4.9, ascii ''Netherlands''),
          city_dict (ascii ''Zurich'', 47.37, 8.54, ascii ''Switzerland'')]"
    by (simp add: db_two_eq select_cities_eq favorite_rows_def
          london_def zurich_def amsterdam_def ascii_def)
  have m: "city_dict (ascii ''Zurich'', 47.37, 8.54, ascii ''Switzerland'') \<in>
      set [city_dict (ascii ''Amsterdam'', 52.37, 4.9, ascii ''Netherlands''),
           city_dict (ascii ''Zurich'', 47.37, 8.54, ascii ''Switzerland'')]"
    by simp
  note t = select_cities_lon_lng [OF h, THEN bspec, OF m]
  show ?thesis
    by (intro conjI h t [THEN conjunct1] t [THEN conjunct2])
qed

section \<open>Properties of the rendering\<close>

text \<open>
  The open figures after a call: a call that returns the path leaves them as they were,
  and a call that raises, at a malformed point or in \<open>plt.savefig\<close>, has one more.
\<close>

lemma create_graph_open_figs:
  "(\<forall>p. snd (create_graph env st out_path items) = Inr p \<longrightarrow>
      p = out_path \<and> open_figs (fst (create_graph env st out_path items)) = open_figs st) \<and>
   (\<forall>e. snd (create_graph env st out_path items) = Inl e \<longrightarrow>
      (\<exists>fig. open_figs (fst (create_graph env st out_path items)) = fig # open_figs st))"
  unfolding create_graph_cases
  by (cases "plot_cities env [SetGlobal, AddFeature LAND, AddFeature OCEAN, AddFeature COASTLINE,
                AddFeature BORDERS] items")
    (auto split: option.splits)

text \<open>
  C4: the canvas is to be closed on every exit path, also where writing the file fails.
  \<open>create_graph\<close> reaches \<open>plt.close(fig)\<close> only after \<open>plt.savefig\<close> has returned:
  where the save raises, no figure was open before the call and the figure of the call is
  still open after it.
\<close>

theorem create_graph_failed_save_leaves_figure_open:
  "snd (create_graph env_fail plt0 (ascii ''/no/such/dir/map.png'') []) = Inl OSError \<and>
   open_figs (fst (create_graph env_fail plt0 (ascii ''/no/such/dir/map.png'') [])) =
     [[SetGlobal, AddFeature LAND, AddFeature OCEAN, AddFeature COASTLINE, AddFeature BORDERS,
       TightLayout]] \<and>
   open_figs plt0 = []"
  by (simp add: create_graph_def env_fail_def env_ok_def plt0_def)

text \<open>
  C7: the longitude is read from the key \<open>lon\<close> or, when that is absent, from \<open>lng\<close>.
  A call whose point has the value under \<open>lng\<close> only gives the same result and state as the
  call whose point has it under \<open>lon\<close> only; a point with neither key makes
  \<open>float(None)\<close> raise \<open>TypeError\<close>, and the call raises.
\<close>

theorem create_graph_lon_lng:
  assumes "item ''lon'' = None" and "item ''lng'' = None"
  shows "create_graph env st out_path (pre @ item(''lng'' \<mapsto> v) # post) =
           create_graph env st out_path (pre @ item(''lon'' \<mapsto> v) # post) \<and>
         item_lon env item = Inl TypeError \<and>
         (\<exists>e. snd (create_graph env st out_path (pre @ item # post)) = Inl e)"
proof (intro conjI)
  show "create_graph env st out_path (pre @ item(''lng'' \<mapsto> v) # post) =
           create_graph env st out_path (pre @ item(''lon'' \<mapsto> v) # post)"
    unfolding create_graph_cases
    by (simp only: plot_cities_cong [where a = "item(''lng'' \<mapsto> v)" and b = "item(''lon'' \<mapsto> v)",
          OF item_swap [OF assms]])
  show lon: "item_lon env item = Inl TypeError"
    using assms by (rule item_lon_missing)
  have "isl (plot_city env ax item)" for ax
    using lon by (simp add: plot_city_cases split: sum.splits)
  then have "snd (plot_cities env [SetGlobal, AddFeature LAND, AddFeature OCEAN,
      AddFeature COASTLINE, AddFeature BORDERS] (pre @ item # post)) \<noteq> None"
    by (rule plot_cities_error)
  then show "\<exists>e. snd (create_graph env st out_path (pre @ item # post)) = Inl e"
    unfolding create_graph_cases
    by (cases "plot_cities env [SetGlobal, AddFeature LAND, AddFeature OCEAN,
      AddFeature COASTLINE, AddFeature BORDERS] (pre @ item # post)") auto
qed

theorem create_graph_lon_lng_witness:
  "point_x ''lon'' = None \<and> point_x ''lng'' = None \<and>
   create_graph env_ok plt0 (ascii ''map.png'') ([] @ point_x(''lng'' \<mapsto> PFloat 20) # []) =
     create_graph env_ok plt0 (ascii ''map.png'') ([] @ point_x(''lon'' \<mapsto> PFloat 20) # []) \<and>
   item_lon env_ok point_x = Inl TypeError \<and>
   (\<exists>e. snd (create_graph env_ok plt0 (ascii ''map.png'') ([] @ point_x # [])) = Inl e) \<and>
   files (fst (create_graph env_ok plt0 (ascii ''map.png'') [point_x(''lng'' \<mapsto> PFloat 20)]))
       (ascii ''map.png'') =
     Some [SetGlobal, AddFeature LAND, AddFeature OCEAN, AddFeature COASTLINE,
           AddFeature BORDERS, Plot 20 10, Text 21 11 (ascii ''X''), TightLayout]"
proof -
  have a: "point_x ''lon'' = None" and b: "point_x ''lng'' = None"
    by (simp_all add: point_x_def)
  note t = create_graph_lon_lng [OF a b, of env_ok plt0 "ascii ''map.png''" "[]" "PFloat 20" "[]"]
  have e: "files (fst (create_graph env_ok plt0 (ascii ''map.png'') [point_x(''lng'' \<mapsto> PFloat 20)]))
       (ascii ''map.png'') =
     Some [SetGlobal, AddFeature LAND, AddFeature OCEAN, AddFeature COASTLINE,
           AddFeature BORDERS, Plot 20 10, Text 21 11 (ascii ''X''), TightLayout]"
    by (simp add: create_graph_def plot_city_def item_name_def item_lat_def item_lon_def
          dict_get_def dict_item_def point_x_def env_ok_def plt0_def ascii_def)
  show ?thesis
    by (intro conjI a b e t [THEN conjunct1] t [THEN conjunct2, THEN conjunct1]
          t [THEN conjunct2, THEN conjunct2])
qed

text \<open>
  C8 (as amended): in the image a returning call writes, the base layers are followed, for
  every point in input order, by one marker at the point's (longitude, latitude) and, when
  the label of the point is not empty, by one text with that label at (longitude + 1,
  latitude + 1); then comes the layout call.
\<close>

theorem create_graph_overlay:
  assumes "snd (create_graph env st out_path items) = Inr p"
  shows "\<exists>segs. files (fst (create_graph env st out_path items)) out_path =
           Some ([SetGlobal, AddFeature LAND, AddFeature OCEAN, AddFeature COASTLINE,
                  AddFeature BORDERS] @ concat segs @ [TightLayout]) \<and>
         list_all2 (\<lambda>item seg. \<exists>la lo. item_lat env item = Inr la \<and> item_lon env item = Inr lo \<and>
            seg = Plot lo la # (if item_name env item = [] then []
                                else [Text (lo + 1) (la + 1) (item_name env item)])) items segs"
proof -
  let ?base = "[SetGlobal, AddFeature LAND, AddFeature OCEAN, AddFeature COASTLINE,
                  AddFeature BORDERS]"
  obtain ax1 r where run: "plot_cities env ?base items = (ax1, r)"
    by (cases "plot_cities env ?base items")
  from assms have r: "r = None" and ok: "savefig_ok env out_path"
    unfolding create_graph_cases run by (auto split: option.splits if_splits)
  from plot_cities_None [OF run [unfolded r]] obtain segs where ax1: "ax1 = ?base @ concat segs"
    and all: "list_all2 (\<lambda>item seg. \<exists>la lo. item_lat env item = Inr la \<and> item_lon env item = Inr lo \<and>
            seg = Plot lo la # (if item_name env item = [] then []
                                else [Text (lo + 1) (la + 1) (item_name env item)])) items segs"
    by blast
  have "files (fst (create_graph env st out_path items)) out_path = Some (?base @ concat segs @ [TightLayout])"
    unfolding create_graph_cases run r using ok ax1 by simp
  with all show ?thesis by blast
qed

theorem create_graph_overlay_witness:
  "snd (create_graph env_ok plt0 (ascii ''map.png'') [point_x(''lon'' \<mapsto> PFloat 20), point_bare]) =
     Inr (ascii ''map.png'') \<and>
   (\<exists>segs. files (fst (create_graph env_ok plt0 (ascii ''map.png'')
                        [point_x(''lon'' \<mapsto> PFloat 20), point_bare])) (ascii ''map.png'') =
           Some ([SetGlobal, AddFeature LAND, AddFeature OCEAN, AddFeature COASTLINE,
                  AddFeature BORDERS] @ concat segs @ [TightLayout]) \<and>
         list_all2 (\<lambda>item seg. \<exists>la lo. item_lat env_ok item = Inr la \<and>
            item_lon env_ok item = Inr lo \<and>
            seg = Plot lo la # (if item_name env_ok item = [] then []
                                else [Text (lo + 1) (la + 1) (item_name env_ok item)]))
           [point_x(''lon'' \<mapsto> PFloat 20), point_bare] segs) \<and>
   files (fst (create_graph env_ok plt0 (ascii ''map.png'')
                 [point_x(''lon'' \<mapsto> PFloat 20), point_bare])) (ascii ''map.png'') =
     Some [SetGlobal, AddFeature LAND, AddFeature OCEAN, AddFeature COASTLINE,
           AddFeature BORDERS, Plot 20 10, Text 21 11 (ascii ''X''), Plot 20 10, TightLayout]"
proof -
  have h: "snd (create_graph env_ok plt0 (ascii ''map.png'')
      [point_x(''lon'' \<mapsto> PFloat 20), point_bare]) = Inr (ascii ''map.png'')"
    by (simp add: create_graph_def plot_city_def item_name_def item_lat_def item_lon_def
          dict_get_def dict_item_def point_x_def point_bare_def env_ok_def plt0_def ascii_def)
  have e: "files (fst (create_graph env_ok plt0 (ascii ''map.png'')
                 [point_x(''lon'' \<mapsto> PFloat 20), point_bare])) (ascii ''map.png'') =
     Some [SetGlobal, AddFeature LAND, AddFeature OCEAN, AddFeature COASTLINE,
           AddFeature BORDERS, Plot 20 10, Text 21 11 (ascii ''X''), Plot 20 10, TightLayout]"
    by (simp add: create_graph_def plot_city_def item_name_def item_lat_def item_lon_def
          dict_get_def dict_item_def point_x_def point_bare_def env_ok_def plt0_def ascii_def)
  show ?thesis
    by (intro conjI h e create_graph_overlay [OF h])
qed

text \<open>
  The claim as it is stated, a text label for every point, fails for a point without a
  label: its call draws the marker and no text.
\<close>

theorem create_graph_overlay_counterexample:
  "snd (create_graph env_ok plt0 (ascii ''map.png'') [point_bare]) = Inr (ascii ''map.png'') \<and>
   files (fst (create_graph env_ok plt0 (ascii ''map.png'') [point_bare])) (ascii ''map.png'') =
     Some [SetGlobal, AddFeature LAND, AddFeature OCEAN, AddFeature COASTLINE,
           AddFeature BORDERS, Plot 20 10, TightLayout]"
  by (simp add: create_graph_def plot_city_def item_name_def item_lat_def item_lon_def
        dict_get_def dict_item_def point_bare_def env_ok_def plt0_def)

text \<open>
  C10: a point whose \<open>city\<close> and \<open>name\<close> are each absent or the empty string is
  rendered without error. When every point has readable coordinates and the save
  succeeds, the call returns the path; the image it writes holds, between the base layers
  and the layout call, the segments of the points in input order, each the marker of its
  point followed by the text of its label when that is not empty and by nothing else; and
  the segment of the point without a label is its marker alone.
\<close>

theorem create_graph_unlabelled:
  assumes city: "item ''city'' = None \<or> item ''city'' = Some (PStr [])"
    and name: "item ''name'' = None \<or> item ''name'' = Some (PStr [])"
    and coords: "\<forall>q\<in>set items. \<exists>la lo. item_lat env q = Inr la \<and> item_lon env q = Inr lo"
    and save: "savefig_ok env out_path"
    and i: "i < length items" "items ! i = item"
  shows "\<exists>segs la lo.
           create_graph env st out_path items =
             (st\<lparr>files := (files st)(out_path \<mapsto>
                    [SetGlobal, AddFeature LAND, AddFeature OCEAN, AddFeature COASTLINE,
                     AddFeature BORDERS] @ concat segs @ [TightLayout])\<rparr>, Inr out_path) \<and>
           list_all2 (\<lambda>q seg. \<exists>la lo. item_lat env q = Inr la \<and> item_lon env q = Inr lo \<and>
              seg = Plot lo la # (if item_name env q = [] then []
                                  else [Text (lo + 1) (la + 1) (item_name env q)])) items segs \<and>
           item_name env item = [] \<and>
           item_lat env item = Inr la \<and> item_lon env item = Inr lo \<and>
           segs ! i = [Plot lo la]"
proof -
  let ?base = "[SetGlobal, AddFeature LAND, AddFeature OCEAN, AddFeature COASTLINE,
                  AddFeature BORDERS]"
  let ?drawn = "\<lambda>q seg. \<exists>la lo. item_lat env q = Inr la \<and> item_lon env q = Inr lo \<and>
            seg = Plot lo la # (if item_name env q = [] then []
                                else [Text (lo + 1) (la + 1) (item_name env q)])"
  from plot_cities_total [OF coords] obtain ax1 where run: "plot_cities env ?base items = (ax1, None)"
    by blast
  from plot_cities_None [OF run] obtain segs where ax1: "ax1 = ?base @ concat segs"
    and all: "list_all2 ?drawn items segs"
    by blast
  have res: "create_graph env st out_path items =
             (st\<lparr>files := (files st)(out_path \<mapsto> ?base @ concat segs @ [TightLayout])\<rparr>, Inr out_path)"
    unfolding create_graph_cases run using save ax1 by simp
  have no_label: "item_name env item = []"
    using city name by (rule item_name_empty)
  have "?drawn (items ! i) (segs ! i)"
    using all i(1) by (rule list_all2_nthD)
  then obtain la lo where la: "item_lat env item = Inr la" and lo: "item_lon env item = Inr lo"
    and seg: "segs ! i = Plot lo la # (if item_name env item = [] then []
                                else [Text (lo + 1) (la + 1) (item_name env item)])"
    unfolding i(2) by blast
  have "segs ! i = [Plot lo la]"
    using seg no_label by simp
  with res all no_label la lo show ?thesis by blast
qed

text \<open>
  An instance with the point without a label in the first place, before a labelled one,
  and the image the call writes there.
\<close>

theorem create_graph_unlabelled_witness:
  "(\<exists>segs la lo.
           create_graph env_ok plt0 (ascii ''map.png'') [point_bare, point_x(''lon'' \<mapsto> PFloat 20)] =
             (plt0\<lparr>files := (files plt0)(ascii ''map.png'' \<mapsto>
                    [SetGlobal, AddFeature LAND, AddFeature OCEAN, AddFeature COASTLINE,
                     AddFeature BORDERS] @ concat segs @ [TightLayout])\<rparr>, Inr (ascii ''map.png'')) \<and>
           list_all2 (\<lambda>q seg. \<exists>la lo. item_lat env_ok q = Inr la \<and> item_lon env_ok q = Inr lo \<and>
              seg = Plot lo la # (if item_name env_ok q = [] then []
                                  else [Text (lo + 1) (la + 1) (item_name env_ok q)]))
             [point_bare, point_x(''lon'' \<mapsto> PFloat 20)] segs \<and>
           item_name env_ok point_bare = [] \<and>
           item_lat env_ok point_bare = Inr la \<and> item_lon env_ok point_bare = Inr lo \<and>
           segs ! 0 = [Plot lo la]) \<and>
   create_graph env_ok plt0 (ascii ''map.png'') [point_bare, point_x(''lon'' \<mapsto> PFloat 20)] =
     (plt0\<lparr>files := (files plt0)(ascii ''map.png'' \<mapsto>
        [SetGlobal, AddFeature LAND, AddFeature OCEAN, AddFeature COASTLINE, AddFeature BORDERS,
         Plot 20 10, Plot 20 10, Text 21 11 (ascii ''X''), TightLayout])\<rparr>,
      Inr (ascii ''map.png''))"
proof (intro conjI)
  show "\<exists>segs la lo.
           create_graph env_ok plt0 (ascii ''map.png'') [point_bare, point_x(''lon'' \<mapsto> PFloat 20)] =
             (plt0\<lparr>files := (files plt0)(ascii ''map.png'' \<mapsto>
                    [SetGlobal, AddFeature LAND, AddFeature OCEAN, AddFeature COASTLINE,
                     AddFeature BORDERS] @ concat segs @ [TightLayout])\<rparr>, Inr (ascii ''map.png'')) \<and>
           list_all2 (\<lambda>q seg. \<exists>la lo. item_lat env_ok q = Inr la \<and> item_lon env_ok q = Inr lo \<and>
              seg = Plot lo la # (if item_name env_ok q = [] then []
                                  else [Text (lo + 1) (la + 1) (item_name env_ok q)]))
             [point_bare, point_x(''lon'' \<mapsto> PFloat 20)] segs \<and>
           item_name env_ok point_bare = [] \<and>
           item_lat env_ok point_bare = Inr la \<and> item_lon env_ok point_bare = Inr lo \<and>
           segs ! 0 = [Plot lo la]"
  proof (rule create_graph_unlabelled)
    show "point_bare ''city'' = None \<or> point_bare ''city'' = Some (PStr [])"
      by (simp add: point_bare_def)
    show "point_bare ''name'' = None \<or> point_bare ''name'' = Some (PStr [])"
      by (simp add: point_bare_def)
    show "\<forall>q\<in>set [point_bare, point_x(''lon'' \<mapsto> PFloat 20)].
            \<exists>la lo. item_lat env_ok q = Inr la \<and> item_lon env_ok q = Inr lo"
      by (simp add: item_lat_def item_lon_def dict_get_def dict_item_def point_x_def point_bare_def)
    show "savefig_ok env_ok (ascii ''map.png'')"
      by (simp add: env_ok_def)
    show "0 < length [point_bare, point_x(''lon'' \<mapsto> PFloat 20)]"
      by simp
    show "[point_bare, point_x(''lon'' \<mapsto> PFloat 20)] ! 0 = point_bare"
      by simp
  qed
  show "create_graph env_ok plt0 (ascii ''map.png'') [point_bare, point_x(''lon'' \<mapsto> PFloat 20)] =
     (plt0\<lparr>files := (files plt0)(ascii ''map.png'' \<mapsto>
        [SetGlobal, AddFeature LAND, AddFeature OCEAN, AddFeature COASTLINE, AddFeature BORDERS,
         Plot 20 10, Plot 20 10, Text 21 11 (ascii ''X''), TightLayout])\<rparr>,
      Inr (ascii ''map.png''))"
    by (simp add: create_graph_def plot_city_def item_name_def item_lat_def item_lon_def
          dict_get_def dict_item_def point_x_def point_bare_def env_ok_def plt0_def ascii_def)
qed

end
